theory Spec2Isabelle
  imports Complex_Main "HOL-Library.Word"
begin

section \<open>The EAS kernel (cortex/attribution/eas.py)\<close>

text \<open>
  Python floats (float64) are modelled as real numbers: the arithmetic is the exact
  one, without rounding, overflow, infinities or NaN.  An exception is a value
  \<open>Inl e\<close> of a sum type.  The wall-clock reading \<open>compute_ms\<close> is an input of
  the model (the difference of the two \<open>perf_counter\<close> readings).
\<close>

type_synonym vec = "real list"

datatype py_error =
    ValueError
  | IndexError
  | AttributeError
  | MultipleResultsFound
  | HTTPException nat string

text \<open>
  A numpy array of one or two dimensions.  \<open>Arr2 d rows\<close> has shape
  \<open>(length rows, d)\<close>; the column count is kept apart because an array may have
  no row at all (\<open>np.empty((0, 3))\<close>).
\<close>

datatype ndarray = Arr1 vec | Arr2 nat "vec list"

text \<open>
  The argument \<open>memory_embeddings : np.ndarray | list[list[float]]\<close>.
\<close>

datatype embeddings_arg = Array ndarray | PyList "vec list"

text \<open>
  \<open>np.asarray(x, dtype=np.float64)\<close>: an array is returned as it is; the empty
  list gives a one-dimensional array of shape \<open>(0,)\<close>; a list of rows of one
  length gives a matrix; a ragged list raises ValueError.
\<close>

fun asarray :: "embeddings_arg \<Rightarrow> py_error + ndarray" where
  "asarray (Array a) = Inr a"
| "asarray (PyList []) = Inr (Arr1 [])"
| "asarray (PyList (row # rows)) =
     (if list_all (\<lambda>x. length x = length row) rows
      then Inr (Arr2 (length row) (row # rows)) else Inl ValueError)"

text \<open>\<open>if M.ndim == 1: M = M.reshape(1, -1)\<close>, giving the pair (d, rows).\<close>

fun reshape_rows :: "ndarray \<Rightarrow> nat \<times> vec list" where
  "reshape_rows (Arr1 v) = (length v, [v])"
| "reshape_rows (Arr2 d rows) = (d, rows)"

definition l2norm :: "vec \<Rightarrow> real" where
  "l2norm v = sqrt (sum_list (map (\<lambda>x. x * x) v))"

definition dot :: "vec \<Rightarrow> vec \<Rightarrow> real" where
  "dot u v = sum_list (map2 (*) u v)"

text \<open>\<open>matrix_n @ vector_n\<close>: the inner dimensions must agree.\<close>

definition matvec :: "nat \<Rightarrow> vec list \<Rightarrow> vec \<Rightarrow> py_error + vec" where
  "matvec d rows v =
     (if d \<noteq> length v then Inl ValueError else Inr (map (\<lambda>row. dot row v) rows))"

definition cosine_similarities :: "nat \<Rightarrow> vec list \<Rightarrow> vec \<Rightarrow> py_error + vec" where
  "cosine_similarities d matrix vector =
     (let norms_m = map l2norm matrix;
          norms_m = map (\<lambda>n. if n = 0 then 1 else n) norms_m;
          matrix_n = map2 (\<lambda>row n. map (\<lambda>x. x / n) row) matrix norms_m;
          norm_v = l2norm vector
      in if norm_v = 0 then Inr (replicate (length matrix) 0)
         else let vector_n = map (\<lambda>x. x / norm_v) vector
              in matvec d matrix_n vector_n)"

record eas_result =
  scores :: vec
  raw_scores :: vec
  compute_ms :: real

definition compute_eas ::
  "embeddings_arg \<Rightarrow> vec \<Rightarrow> vec \<Rightarrow> real \<Rightarrow> py_error + eas_result" where
  "compute_eas memory_embeddings q r elapsed_ms =
     (case asarray memory_embeddings of
        Inl e \<Rightarrow> Inl e
      | Inr M0 \<Rightarrow>
          (let (d, M) = reshape_rows M0; k = length M
           in if k = 0 then Inr \<lparr>scores = [], raw_scores = [], compute_ms = 0\<rparr>
              else
                (case cosine_similarities d M r of
                   Inl e \<Rightarrow> Inl e
                 | Inr sim_mr \<Rightarrow>
                     (case cosine_similarities d M q of
                        Inl e \<Rightarrow> Inl e
                      | Inr sim_mq \<Rightarrow>
                          (let sim_mr = map (\<lambda>x. max x 0) sim_mr;
                               sim_mq = map (\<lambda>x. max x 0) sim_mq;
                               raw = map2 (*) sim_mr sim_mq;
                               total = sum_list raw;
                               sc = (if total > 0 then map (\<lambda>x. x / total) raw
                                     else replicate k (1 / real k))
                           in Inr \<lparr>scores = sc, raw_scores = raw,
                                   compute_ms = elapsed_ms\<rparr>)))))"

text \<open>The typed contract of the kernel: M is a k x d matrix, q and r have d entries.\<close>

definition well_shaped :: "embeddings_arg \<Rightarrow> nat \<Rightarrow> vec list \<Rightarrow> vec \<Rightarrow> vec \<Rightarrow> bool" where
  "well_shaped memory_embeddings d M q r \<longleftrightarrow>
     map_sum id reshape_rows (asarray memory_embeddings) = Inr (d, M) \<and>
     list_all (\<lambda>row. length row = d) M \<and> length q = d \<and> length r = d"


section \<open>The flat store (cortex/db/tables.py)\<close>

text \<open>
  A table with a primary key is a map from the key to the row, a table that is only
  appended to is a list of rows.  Memory ids are strings that the store orders by
  its collation; the model takes any linearly ordered type for them.  Columns that
  no modelled statement reads or writes are left out.
\<close>

type_synonym timestamp = nat

record memory_row =
  mem_content :: string
  mem_embedding :: "vec option"
  mem_retrieval_count :: int
  mem_last_accessed :: "timestamp option"
  mem_deleted_at :: "timestamp option"

datatype txn_status = pending | completed

record 'm transaction_row =
  txn_query_text :: string
  txn_query_embedding :: "vec option"
  txn_response_text :: "string option"
  txn_response_embedding :: "vec option"
  txn_status :: txn_status
  txn_retrieved_memory_ids :: "'m list"
  txn_agent_id :: string
  txn_input_tokens :: int
  txn_output_tokens :: int
  txn_model :: string
  txn_created_at :: timestamp

record 'm attribution_score =
  score_id :: string
  score_memory_id :: 'm
  score_transaction_id :: string
  score :: real
  raw_score :: real
  score_method :: string
  score_confidence :: real
  score_compute_time_ms :: real

record memory_profile =
  mean_attribution :: real
  m2 :: real
  retrieval_count :: int
  total_attribution :: real
  trend :: string
  updated_at :: timestamp

record token_cost_config =
  input_token_cost :: real
  output_token_cost :: real

record transaction_cost =
  cost_transaction_id :: string
  input_cost :: real
  output_cost :: real
  total_cost :: real

record 'm store =
  memories :: "'m \<rightharpoonup> memory_row"
  transactions :: "string \<rightharpoonup> 'm transaction_row"
  attribution_scores :: "'m attribution_score list"
  memory_profiles :: "'m \<rightharpoonup> memory_profile"
  agent_cost_configs :: "string \<rightharpoonup> token_cost_config"

text \<open>
  What a request reads from its environment: the embedding collaborator, the clock,
  the successive results of \<open>uuid.uuid4()\<close> and the time EAS took.
\<close>

record env =
  env_embed :: "string list \<Rightarrow> vec list"
  env_now :: timestamp
  env_uuid4 :: "nat \<Rightarrow> string"
  env_elapsed_ms :: real

section \<open>The attribution pipeline (cortex/api/transactions.py)\<close>

text \<open>Python truthiness of an optional list: \<open>None\<close> and \<open>[]\<close> are false.\<close>

fun truthy :: "'a list option \<Rightarrow> bool" where
  "truthy None = False"
| "truthy (Some xs) = (xs \<noteq> [])"

text \<open>\<open>a or b\<close> on an optional list and a list.\<close>

fun or_else :: "'a list option \<Rightarrow> 'a list \<Rightarrow> 'a list" where
  "or_else None d = d"
| "or_else (Some xs) d = (if xs = [] then d else xs)"

text \<open>\<open>a or b\<close> on an optional integer: \<open>None\<close> and \<open>0\<close> are false.\<close>

fun int_or :: "int option \<Rightarrow> int \<Rightarrow> int" where
  "int_or None d = d"
| "int_or (Some n) d = (if n = 0 then d else n)"

text \<open>
  \<open>len(text.split())\<close>: the number of maximal runs of characters that are not
  white space.  Characters are the code points below 256.
\<close>

definition is_space :: "char \<Rightarrow> bool" where
  "is_space c \<longleftrightarrow> (let n = (of_char c :: nat)
     in (9 \<le> n \<and> n \<le> 13) \<or> (28 \<le> n \<and> n \<le> 32) \<or> n = 133 \<or> n = 160)"

fun count_words :: "bool \<Rightarrow> string \<Rightarrow> nat" where
  "count_words in_word [] = 0"
| "count_words in_word (c # cs) =
     (if is_space c then count_words False cs
      else (if in_word then 0 else 1) + count_words True cs)"

definition whitespace_tokens :: "string \<Rightarrow> int" where
  "whitespace_tokens text = int (count_words False text)"

text \<open>
  \<open>select(memories).where(id.in_(ids)) [.where(deleted_at.is_(None))] .order_by(id)\<close>
\<close>

definition select_memories ::
  "('m::linorder \<rightharpoonup> memory_row) \<Rightarrow> 'm list \<Rightarrow> bool \<Rightarrow> ('m \<times> memory_row) list" where
  "select_memories mems ids snapshot =
     List.map_filter
       (\<lambda>i. case mems i of
               None \<Rightarrow> None
             | Some row \<Rightarrow>
                 if snapshot \<or> mem_deleted_at row = None then Some (i, row) else None)
       (sort (remdups ids))"

text \<open>\<open>arr.size\<close>\<close>

fun array_size :: "ndarray \<Rightarrow> nat" where
  "array_size (Arr1 v) = length v"
| "array_size (Arr2 d rows) = length rows * d"

text \<open>
  The atomic Welford upsert: every expression of the \<open>DO UPDATE SET\<close> list reads
  the row as it was before the statement.  The store raises on a division by zero.
\<close>

datatype db_error = DivisionByZero | IntegrityError

definition welford_upsert ::
  "'m \<Rightarrow> real \<Rightarrow> timestamp \<Rightarrow> ('m \<rightharpoonup> memory_profile) \<Rightarrow> db_error + ('m \<rightharpoonup> memory_profile)" where
  "welford_upsert mem_id x now profiles =
     (case profiles mem_id of
        None \<Rightarrow>
          Inr (profiles(mem_id \<mapsto>
            \<lparr>mean_attribution = x, m2 = 0, retrieval_count = 1, total_attribution = x,
             trend = ''stable'', updated_at = now\<rparr>))
      | Some p \<Rightarrow>
          if retrieval_count p + 1 = 0 then Inl DivisionByZero
          else Inr (profiles(mem_id \<mapsto>
            \<lparr>mean_attribution =
               mean_attribution p + (x - mean_attribution p) / real_of_int (retrieval_count p + 1),
             m2 = m2 p + (x - mean_attribution p) *
               (x - (mean_attribution p +
                  (x - mean_attribution p) / real_of_int (retrieval_count p + 1))),
             retrieval_count = retrieval_count p + 1,
             total_attribution = total_attribution p + x,
             trend = (if x > mean_attribution p * 1.1 then ''up''
                      else if x < mean_attribution p * 0.9 then ''down''
                      else ''stable''),
             updated_at = now\<rparr>)))"

text \<open>\<open>update(memories).where(id == mem_id).values(retrieval_count + 1, last_accessed)\<close>\<close>

definition bump_memory ::
  "'m \<Rightarrow> timestamp \<Rightarrow> ('m \<rightharpoonup> memory_row) \<Rightarrow> ('m \<rightharpoonup> memory_row)" where
  "bump_memory mem_id now mems =
     (case mems mem_id of
        None \<Rightarrow> mems
      | Some row \<Rightarrow> mems(mem_id \<mapsto>
          row\<lparr>mem_retrieval_count := mem_retrieval_count row + 1,
              mem_last_accessed := Some now\<rparr>))"

datatype error = Py py_error | Db db_error

text \<open>The second loop of \<open>_run_eas_and_store\<close>, over the score objects.\<close>

fun update_profiles ::
  "timestamp \<Rightarrow> 'm attribution_score list \<Rightarrow> 'm store \<Rightarrow> error + 'm store" where
  "update_profiles now [] s = Inr s"
| "update_profiles now (score_obj # rest) s =
     (case welford_upsert (score_memory_id score_obj) (score score_obj) now (memory_profiles s) of
        Inl e \<Rightarrow> Inl (Db e)
      | Inr profiles \<Rightarrow>
          update_profiles now rest
            (s\<lparr>memory_profiles := profiles,
               memories := bump_memory (score_memory_id score_obj) now (memories s)\<rparr>))"

text \<open>The first loop: one score object per memory that has an embedding.\<close>

definition make_scores ::
  "env \<Rightarrow> nat \<Rightarrow> string \<Rightarrow> eas_result \<Rightarrow> ('m \<times> memory_row) list \<Rightarrow> 'm attribution_score list" where
  "make_scores e first_uuid txn_id eas_res mem_with_embeddings =
     map (\<lambda>(i, (mem_id, mem_row)).
            \<lparr>score_id = env_uuid4 e (first_uuid + i),
             score_memory_id = mem_id,
             score_transaction_id = txn_id,
             score = (if i < length (scores eas_res) then scores eas_res ! i else 0),
             raw_score = (if i < length (raw_scores eas_res) then raw_scores eas_res ! i else 0),
             score_method = ''eas'',
             score_confidence = 1,
             score_compute_time_ms = compute_ms eas_res\<rparr>)
         (enumerate 0 mem_with_embeddings)"

text \<open>
  \<open>_run_eas_and_store\<close>.  The result is the outcome together with the store as the
  statements executed so far have left it; \<open>first_uuid\<close> counts the calls of
  \<open>uuid4\<close> the request made before.
\<close>

definition run_eas_and_store ::
  "env \<Rightarrow> nat \<Rightarrow> string \<Rightarrow> vec \<Rightarrow> vec \<Rightarrow> ('m::linorder) list \<Rightarrow> bool \<Rightarrow> 'm store
     \<Rightarrow> (error + 'm attribution_score list) \<times> 'm store" where
  "run_eas_and_store e first_uuid txn_id q_emb r_emb retrieved_memory_ids snapshot s =
     (let mem_rows = (if retrieved_memory_ids \<noteq> []
                      then select_memories (memories s) retrieved_memory_ids snapshot else []);
          mem_with_embeddings = filter (\<lambda>(i, r). truthy (mem_embedding r)) mem_rows;
          eas_default = Inr \<lparr>scores = [], raw_scores = [], compute_ms = 0\<rparr>;
          eas_res =
            (if mem_rows \<noteq> [] then
               (case asarray (PyList (map (\<lambda>(i, r). the (mem_embedding r)) mem_with_embeddings)) of
                  Inl err \<Rightarrow> Inl err
                | Inr mem_embeddings \<Rightarrow>
                    if array_size mem_embeddings > 0
                    then compute_eas (Array mem_embeddings) q_emb r_emb (env_elapsed_ms e)
                    else eas_default)
             else eas_default)
      in case eas_res of
           Inl err \<Rightarrow> (Inl (Py err), s)
         | Inr res \<Rightarrow>
             (let score_objs = make_scores e first_uuid txn_id res mem_with_embeddings;
                  s1 = s\<lparr>attribution_scores := attribution_scores s @ score_objs\<rparr>
              in case update_profiles (env_now e) score_objs s1 of
                   Inl err \<Rightarrow> (Inl err, s1)
                 | Inr s2 \<Rightarrow> (Inr score_objs, s2)))"

text \<open>The request and response models of cortex/models.py.\<close>

record 'm transaction_create =
  tc_query_text :: string
  tc_response_text :: string
  tc_retrieved_memory_ids :: "'m list"
  tc_agent_id :: string
  tc_query_embedding :: "vec option"
  tc_response_embedding :: "vec option"
  tc_input_tokens :: "int option"
  tc_output_tokens :: "int option"
  tc_model :: string

record 'm transaction_initiate =
  ti_query_text :: string
  ti_retrieved_memory_ids :: "'m list"
  ti_agent_id :: string
  ti_query_embedding :: "vec option"
  ti_model :: string

record transaction_complete =
  tf_response_text :: string
  tf_response_embedding :: "vec option"
  tf_input_tokens :: "int option"
  tf_output_tokens :: "int option"

record 'm transaction_model =
  tm_id :: string
  tm_query_text :: string
  tm_query_embedding :: vec
  tm_response_text :: "string option"
  tm_response_embedding :: vec
  tm_retrieved_memory_ids :: "'m list"
  tm_agent_id :: string
  tm_input_tokens :: int
  tm_output_tokens :: int
  tm_model :: string
  tm_status :: txn_status
  tm_created_at :: timestamp

record 'm transaction_with_scores =
  tws_transaction :: "'m transaction_model"
  tws_scores :: "'m attribution_score list"
  tws_cost :: transaction_cost

definition row_to_txn :: "string \<Rightarrow> 'm transaction_row \<Rightarrow> 'm transaction_model" where
  "row_to_txn txn_id row =
     \<lparr>tm_id = txn_id,
      tm_query_text = txn_query_text row,
      tm_query_embedding = or_else (txn_query_embedding row) [],
      tm_response_text = txn_response_text row,
      tm_response_embedding = or_else (txn_response_embedding row) [],
      tm_retrieved_memory_ids = txn_retrieved_memory_ids row,
      tm_agent_id = txn_agent_id row,
      tm_input_tokens = txn_input_tokens row,
      tm_output_tokens = txn_output_tokens row,
      tm_model = txn_model row,
      tm_status = txn_status row,
      tm_created_at = txn_created_at row\<rparr>"

text \<open>The defaults of cortex/config.py.\<close>

definition default_input_token_cost :: real where
  "default_input_token_cost = 1 / 100000"

definition default_output_token_cost :: real where
  "default_output_token_cost = 3 / 100000"

definition get_cost_config :: "'m store \<Rightarrow> string \<Rightarrow> token_cost_config" where
  "get_cost_config s agent_id =
     (case agent_cost_configs s agent_id of
        Some row \<Rightarrow> row
      | None \<Rightarrow> \<lparr>input_token_cost = default_input_token_cost,
                 output_token_cost = default_output_token_cost\<rparr>)"

text \<open>\<open>transaction_cost\<close> of cortex/metrics/calculator.py.\<close>

definition compute_transaction_cost ::
  "int \<Rightarrow> int \<Rightarrow> token_cost_config \<Rightarrow> string \<Rightarrow> transaction_cost" where
  "compute_transaction_cost input_tokens output_tokens config transaction_id =
     (let ic = real_of_int input_tokens * input_token_cost config;
          oc = real_of_int output_tokens * output_token_cost config
      in \<lparr>cost_transaction_id = transaction_id, input_cost = ic, output_cost = oc,
          total_cost = ic + oc\<rparr>)"

text \<open>\<open>xs[i]\<close>\<close>

definition index :: "'a list \<Rightarrow> nat \<Rightarrow> py_error + 'a" where
  "index xs i = (if i < length xs then Inr (xs ! i) else Inl IndexError)"

text \<open>The response that both \<open>create\<close> and \<open>complete\<close> build after the commit.\<close>

definition build_response ::
  "string \<Rightarrow> string \<Rightarrow> int \<Rightarrow> int \<Rightarrow> 'm attribution_score list \<Rightarrow> 'm store
     \<Rightarrow> (error + 'm transaction_with_scores) \<times> 'm store" where
  "build_response txn_id agent_id input_tokens output_tokens score_objs s =
     (let config = get_cost_config s agent_id;
          cost = compute_transaction_cost input_tokens output_tokens config txn_id
      in case transactions s txn_id of
           None \<Rightarrow> (Inl (Py AttributeError), s)
         | Some txn_row \<Rightarrow>
             (Inr \<lparr>tws_transaction = row_to_txn txn_id txn_row, tws_scores = score_objs,
                   tws_cost = cost\<rparr>, s))"

text \<open>\<open>POST /transactions\<close>: the single-shot path.\<close>

definition create_transaction ::
  "env \<Rightarrow> ('m::linorder) transaction_create \<Rightarrow> 'm store
     \<Rightarrow> (error + 'm transaction_with_scores) \<times> 'm store" where
  "create_transaction e body s =
     (let need_q = \<not> truthy (tc_query_embedding body);
          need_r = \<not> truthy (tc_response_embedding body);
          texts_to_embed = (if need_q then [tc_query_text body] else [])
                         @ (if need_r then [tc_response_text body] else []);
          embeddings = (if texts_to_embed \<noteq> [] then env_embed e texts_to_embed else []);
          q_res = (if need_q then index embeddings 0
                   else Inr (the (tc_query_embedding body)));
          r_res = (if need_r then index embeddings (if need_q then 1 else 0)
                   else Inr (the (tc_response_embedding body)))
      in case q_res of
           Inl err \<Rightarrow> (Inl (Py err), s)
         | Inr q_emb \<Rightarrow>
      (case r_res of
           Inl err \<Rightarrow> (Inl (Py err), s)
         | Inr r_emb \<Rightarrow>
      (let input_tokens = int_or (tc_input_tokens body) (whitespace_tokens (tc_query_text body));
           output_tokens = int_or (tc_output_tokens body) (whitespace_tokens (tc_response_text body));
           txn_id = env_uuid4 e 0
       in if txn_id \<in> dom (transactions s) then (Inl (Db IntegrityError), s)
          else
            (let s1 = s\<lparr>transactions := (transactions s)(txn_id \<mapsto>
                         \<lparr>txn_query_text = tc_query_text body,
                          txn_query_embedding = Some q_emb,
                          txn_response_text = Some (tc_response_text body),
                          txn_response_embedding = Some r_emb,
                          txn_status = completed,
                          txn_retrieved_memory_ids = tc_retrieved_memory_ids body,
                          txn_agent_id = tc_agent_id body,
                          txn_input_tokens = input_tokens,
                          txn_output_tokens = output_tokens,
                          txn_model = tc_model body,
                          txn_created_at = env_now e\<rparr>)\<rparr>
             in case run_eas_and_store e 1 txn_id q_emb r_emb
                       (tc_retrieved_memory_ids body) False s1 of
                  (Inl err, s2) \<Rightarrow> (Inl err, s2)
                | (Inr score_objs, s2) \<Rightarrow>
                    build_response txn_id (tc_agent_id body) input_tokens output_tokens
                      score_objs s2))))"

text \<open>\<open>POST /transactions/initiate\<close>: phase 1 of the two-phase protocol.\<close>

definition initiate_transaction ::
  "env \<Rightarrow> 'm transaction_initiate \<Rightarrow> 'm store \<Rightarrow> (error + string \<times> string) \<times> 'm store" where
  "initiate_transaction e body s =
     (case (if truthy (ti_query_embedding body) then Inr (the (ti_query_embedding body))
            else index (env_embed e [ti_query_text body]) 0) of
        Inl err \<Rightarrow> (Inl (Py err), s)
      | Inr q_emb \<Rightarrow>
          (let txn_id = env_uuid4 e 0
           in if txn_id \<in> dom (transactions s) then (Inl (Db IntegrityError), s)
              else (Inr (txn_id, ''pending''),
                    s\<lparr>transactions := (transactions s)(txn_id \<mapsto>
                         \<lparr>txn_query_text = ti_query_text body,
                          txn_query_embedding = Some q_emb,
                          txn_response_text = None,
                          txn_response_embedding = None,
                          txn_status = pending,
                          txn_retrieved_memory_ids = ti_retrieved_memory_ids body,
                          txn_agent_id = ti_agent_id body,
                          txn_input_tokens = 0,
                          txn_output_tokens = 0,
                          txn_model = ti_model body,
                          txn_created_at = env_now e\<rparr>)\<rparr>)))"

text \<open>\<open>POST /transactions/{txn_id}/complete\<close>: phase 2.\<close>

definition complete_transaction ::
  "env \<Rightarrow> string \<Rightarrow> transaction_complete \<Rightarrow> ('m::linorder) store
     \<Rightarrow> (error + 'm transaction_with_scores) \<times> 'm store" where
  "complete_transaction e txn_id body s =
     (case transactions s txn_id of
        None \<Rightarrow> (Inl (Py (HTTPException 404 ''Transaction not found'')), s)
      | Some txn_row \<Rightarrow>
          if txn_status txn_row \<noteq> pending
          then (Inl (Py (HTTPException 409 ''Transaction is not in pending state'')), s)
          else
            (case (if truthy (tf_response_embedding body)
                   then Inr (the (tf_response_embedding body))
                   else index (env_embed e [tf_response_text body]) 0) of
               Inl err \<Rightarrow> (Inl (Py err), s)
             | Inr r_emb \<Rightarrow>
                 (let input_tokens =
                        int_or (tf_input_tokens body) (whitespace_tokens (txn_query_text txn_row));
                      output_tokens =
                        int_or (tf_output_tokens body) (whitespace_tokens (tf_response_text body));
                      s1 = s\<lparr>transactions := (transactions s)(txn_id \<mapsto>
                             txn_row\<lparr>txn_response_text := Some (tf_response_text body),
                                     txn_response_embedding := Some r_emb,
                                     txn_input_tokens := input_tokens,
                                     txn_output_tokens := output_tokens,
                                     txn_status := completed\<rparr>)\<rparr>;
                      q_emb = or_else (txn_query_embedding txn_row) []
                  in case run_eas_and_store e 0 txn_id q_emb r_emb
                            (txn_retrieved_memory_ids txn_row) True s1 of
                       (Inl err, s2) \<Rightarrow> (Inl err, s2)
                     | (Inr score_objs, s2) \<Rightarrow>
                         build_response txn_id (txn_agent_id txn_row) input_tokens output_tokens
                           score_objs s2)))"

text \<open>\<open>DELETE /memories/{memory_id}\<close> of cortex/api/memories.py: the soft delete.\<close>

definition delete_memory :: "env \<Rightarrow> 'm \<Rightarrow> 'm store \<Rightarrow> (error + unit) \<times> 'm store" where
  "delete_memory e memory_id s =
     (case memories s memory_id of
        None \<Rightarrow> (Inl (Py (HTTPException 404 ''Memory not found'')), s)
      | Some row \<Rightarrow>
          if mem_deleted_at row \<noteq> None
          then (Inl (Py (HTTPException 404 ''Memory not found'')), s)
          else (Inr (), s\<lparr>memories := (memories s)(memory_id \<mapsto>
                            row\<lparr>mem_deleted_at := Some (env_now e)\<rparr>)\<rparr>))"

text \<open>What two runs are compared on: which memory got which score and raw product.\<close>

definition score_view :: "'m attribution_score \<Rightarrow> 'm \<times> real \<times> real" where
  "score_view x = (score_memory_id x, score x, raw_score x)"

text \<open>The outcome of a request, seen through the scores it returns.\<close>

definition outcome_view ::
  "error + 'm transaction_with_scores \<Rightarrow> error + ('m \<times> real \<times> real) list" where
  "outcome_view = map_sum id (\<lambda>res. map score_view (tws_scores res))"

text \<open>A sequence of soft deletions, whatever each request answers.\<close>

definition soft_delete_all :: "env \<Rightarrow> 'm list \<Rightarrow> 'm store \<Rightarrow> 'm store" where
  "soft_delete_all e dels s = fold (\<lambda>i s. snd (delete_memory e i s)) dels s"





section \<open>The provenance graph (cortex/db/models/provenance.py)\<close>

text \<open>
  A UUID is a 128-bit value.  Every table of the graph is the list of its rows in the
  order of insertion; \<open>session.add\<close> appends the row (the session flushes before
  each query).  A JSON object of metadata is a list of key-value pairs.
\<close>

type_synonym uuid = "128 word"
type_synonym json = "(string \<times> string) list"

datatype memory_type = raw | consolidated | critical
datatype memory_status = active | archived | deleted | pending_deletion
datatype criticality = normal | safety_critical | protected
datatype score_type = eas | contextcite | calibrated
datatype derivation_type = d_consolidation | d_embedding | d_re_embedding | d_summary
datatype node_type = memory | summary | embedding

record interaction_node =
  in_id :: uuid
  in_user_id :: string
  in_query :: string
  in_response :: string
  in_timestamp :: timestamp
  in_agent_id :: string
  in_transaction_cost :: real
  in_metadata :: json

record memory_node =
  mn_id :: uuid
  mn_shard_id :: int
  mn_content :: string
  mn_memory_type :: memory_type
  mn_status :: memory_status
  mn_slice_id :: int
  mn_created_at :: timestamp
  mn_created_by_user_id :: string
  mn_token_count :: int
  mn_criticality :: criticality
  mn_metadata :: json
  mn_deletion_scheduled_at :: "timestamp option"

record embedding_node =
  en_id :: uuid
  en_vector_ref :: string
  en_model_version :: string
  en_dimensions :: int
  en_created_at :: timestamp
  en_metadata :: json

record creation_edge =
  ce_id :: uuid
  ce_source_id :: uuid
  ce_target_id :: uuid
  ce_created_at :: timestamp
  ce_metadata :: json

record attribution_edge =
  ae_id :: uuid
  ae_created_at :: timestamp
  ae_source_id :: uuid
  ae_target_id :: uuid
  ae_score :: real
  ae_score_type :: score_type
  ae_version :: int
  ae_is_current :: bool
  ae_metadata :: json

record derivation_edge =
  de_id :: uuid
  de_source_id :: uuid
  de_source_type :: node_type
  de_target_id :: uuid
  de_target_type :: node_type
  de_derivation_type :: derivation_type
  de_created_at :: timestamp
  de_metadata :: json

record graph =
  interaction_nodes :: "interaction_node list"
  memory_nodes :: "memory_node list"
  embedding_nodes :: "embedding_node list"
  creation_edges :: "creation_edge list"
  attribution_edges :: "attribution_edge list"
  derivation_edges :: "derivation_edge list"

text \<open>
  What a recorder reads from its environment: the clock, the successive UUIDs the
  column defaults generate, and Python's \<open>hash\<close> of a string.
\<close>

record penv =
  p_now :: timestamp
  p_uuid :: "nat \<Rightarrow> uuid"
  p_hash :: "string \<Rightarrow> int"

section \<open>The write path (cortex/compliance/provenance.py)\<close>

definition NUM_SHARDS :: int where
  "NUM_SHARDS = 16"

definition record_transaction ::
  "penv \<Rightarrow> string \<Rightarrow> string \<Rightarrow> string \<Rightarrow> string \<Rightarrow> real \<Rightarrow> uuid list \<Rightarrow> real list \<Rightarrow>
     score_type \<Rightarrow> timestamp option \<Rightarrow> json option \<Rightarrow> graph \<Rightarrow> interaction_node \<times> graph" where
  "record_transaction e user_id query response agent_id transaction_cost memory_ids
     scores_arg score_type timestamp metadata g =
     (let now = (case timestamp of Some t \<Rightarrow> t | None \<Rightarrow> p_now e);
          interaction =
            \<lparr>in_id = p_uuid e 0, in_user_id = user_id, in_query = query,
             in_response = response, in_timestamp = now, in_agent_id = agent_id,
             in_transaction_cost = transaction_cost,
             in_metadata = (case metadata of Some m \<Rightarrow> m | None \<Rightarrow> [])\<rparr>;
          edges = map (\<lambda>(i, (memory_id, score)).
                    \<lparr>ae_id = p_uuid e (Suc i), ae_created_at = now, ae_source_id = memory_id,
                     ae_target_id = in_id interaction, ae_score = score,
                     ae_score_type = score_type, ae_version = 1, ae_is_current = True,
                     ae_metadata = []\<rparr>)
                  (enumerate 0 (zip memory_ids scores_arg))
      in (interaction,
          g\<lparr>interaction_nodes := interaction_nodes g @ [interaction],
            attribution_edges := attribution_edges g @ edges\<rparr>))"

text \<open>
  (The parameter \<open>attribution_scores\<close> of the source is \<open>scores_arg\<close> here: the
  name is taken by the table of the flat store.)
\<close>

text \<open>\<open>SELECT COALESCE(MAX(slice_id), -1) + 1 FROM memory_nodes WHERE created_by_user_id = :u\<close>\<close>

definition next_slice_id :: "graph \<Rightarrow> string \<Rightarrow> int" where
  "next_slice_id g user_id =
     fold max (map mn_slice_id (filter (\<lambda>m. mn_created_by_user_id m = user_id) (memory_nodes g)))
       (-1) + 1"

definition record_memory_creation ::
  "penv \<Rightarrow> uuid \<Rightarrow> string \<Rightarrow> string \<Rightarrow> memory_type \<Rightarrow> string \<Rightarrow> string \<Rightarrow> int \<Rightarrow> int \<Rightarrow>
     criticality \<Rightarrow> json option \<Rightarrow> graph \<Rightarrow> (memory_node \<times> embedding_node) \<times> graph" where
  "record_memory_creation e interaction_id content user_id memory_type vector_ref
     embedding_model embedding_dim token_count criticality metadata g =
     (let now = p_now e;
          shard_id = p_hash e user_id mod NUM_SHARDS;
          mem_node =
            \<lparr>mn_id = p_uuid e 0, mn_shard_id = shard_id, mn_content = content,
             mn_memory_type = memory_type, mn_status = active,
             mn_slice_id = next_slice_id g user_id, mn_created_at = now,
             mn_created_by_user_id = user_id, mn_token_count = token_count,
             mn_criticality = criticality,
             mn_metadata = (case metadata of Some m \<Rightarrow> m | None \<Rightarrow> []),
             mn_deletion_scheduled_at = None\<rparr>;
          creation_edge =
            \<lparr>ce_id = p_uuid e 1, ce_source_id = interaction_id, ce_target_id = mn_id mem_node,
             ce_created_at = now, ce_metadata = []\<rparr>;
          emb_node =
            \<lparr>en_id = p_uuid e 2, en_vector_ref = vector_ref, en_model_version = embedding_model,
             en_dimensions = embedding_dim, en_created_at = now, en_metadata = []\<rparr>;
          deriv_edge =
            \<lparr>de_id = p_uuid e 3, de_source_id = mn_id mem_node, de_source_type = memory,
             de_target_id = en_id emb_node, de_target_type = embedding,
             de_derivation_type = d_embedding, de_created_at = now, de_metadata = []\<rparr>
      in ((mem_node, emb_node),
          g\<lparr>memory_nodes := memory_nodes g @ [mem_node],
            creation_edges := creation_edges g @ [creation_edge],
            embedding_nodes := embedding_nodes g @ [emb_node],
            derivation_edges := derivation_edges g @ [deriv_edge]\<rparr>))"

text \<open>\<open>result.scalar_one_or_none()\<close>\<close>

fun scalar_one_or_none :: "'a list \<Rightarrow> py_error + 'a option" where
  "scalar_one_or_none [] = Inr None"
| "scalar_one_or_none [x] = Inr (Some x)"
| "scalar_one_or_none (x # y # rest) = Inl MultipleResultsFound"

text \<open>The \<open>WHERE\<close> clause of both statements of \<open>update_attribution\<close>.\<close>

definition is_current_for :: "uuid \<Rightarrow> uuid \<Rightarrow> attribution_edge \<Rightarrow> bool" where
  "is_current_for source_id target_id edge \<longleftrightarrow>
     ae_source_id edge = source_id \<and> ae_target_id edge = target_id \<and> ae_is_current edge"

text \<open>The \<open>UPDATE ... SET is_current = FALSE\<close> statement, on one row.\<close>

definition supersede :: "uuid \<Rightarrow> uuid \<Rightarrow> attribution_edge \<Rightarrow> attribution_edge" where
  "supersede source_id target_id edge =
     (if is_current_for source_id target_id edge then edge\<lparr>ae_is_current := False\<rparr> else edge)"

definition update_attribution ::
  "penv \<Rightarrow> uuid \<Rightarrow> uuid \<Rightarrow> real \<Rightarrow> score_type \<Rightarrow> json option \<Rightarrow> graph
     \<Rightarrow> py_error + attribution_edge \<times> graph" where
  "update_attribution e source_id target_id new_score new_score_type metadata g =
     (case scalar_one_or_none
             (map ae_version (filter (is_current_for source_id target_id) (attribution_edges g))) of
        Inl err \<Rightarrow> Inl err
      | Inr current \<Rightarrow>
          (let next_version =
                 (case current of None \<Rightarrow> 0 | Some v \<Rightarrow> if v = 0 then 0 else v) + 1;
               superseded = map (supersede source_id target_id) (attribution_edges g);
               new_edge =
                 \<lparr>ae_id = p_uuid e 0, ae_created_at = p_now e, ae_source_id = source_id,
                  ae_target_id = target_id, ae_score = new_score,
                  ae_score_type = new_score_type, ae_version = next_version,
                  ae_is_current = True,
                  ae_metadata = (case metadata of Some m \<Rightarrow> m | None \<Rightarrow> [])\<rparr>
           in Inr (new_edge, g\<lparr>attribution_edges := superseded @ [new_edge]\<rparr>)))"

section \<open>The read path: footprints\<close>

text \<open>
  The recursive common table expression \<open>user_footprint\<close>.  Its rows are pairs
  (node id, node type).  With \<open>UNION\<close> the store evaluates the recursive term on the
  rows the last round added, drops the rows already found, and stops when a round
  adds nothing.
\<close>

type_synonym cte_row = "uuid \<times> node_type"

definition cte_step :: "derivation_edge list \<Rightarrow> cte_row list \<Rightarrow> cte_row list" where
  "cte_step des working =
     concat (map (\<lambda>de. map (\<lambda>uf. (de_target_id de, de_target_type de))
                          (filter (\<lambda>uf. de_source_id de = fst uf) working)) des)"

function cte_loop :: "derivation_edge list \<Rightarrow> cte_row list \<Rightarrow> cte_row list \<Rightarrow> cte_row list" where
  "cte_loop des found working =
     (if working = [] then found
      else (let new = remdups (filter (\<lambda>r. r \<notin> set found) (cte_step des working))
            in cte_loop des (found @ new) new))"
  by pat_completeness auto
termination
proof (relation "measure (\<lambda>(des, found, working).
    2 * card ((\<lambda>de. (de_target_id de, de_target_type de)) ` set des - set found)
      + (if working = [] then 0 else 1))", goal_cases)
  case 1
  show ?case by simp
next
  case (2 des found working new)
  let ?T = "(\<lambda>de. (de_target_id de, de_target_type de)) ` set des"
  have sub: "set new \<subseteq> ?T - set found"
    using 2 by (auto simp: cte_step_def)
  show ?case
  proof (cases "new = []")
    case True
    with 2 show ?thesis by simp
  next
    case False
    then obtain x where x: "x \<in> set new" by (cases new) auto
    have "?T - set (found @ new) \<subset> ?T - set found"
      using sub x by auto
    then have "card (?T - set (found @ new)) < card (?T - set found)"
      by (intro psubset_card_mono) auto
    with 2 False show ?thesis by simp
  qed
qed

text \<open>The equation of the loop is applied on demand, not by the simplifier.\<close>

declare cte_loop.simps [simp del]

definition user_footprint_cte :: "graph \<Rightarrow> string \<Rightarrow> cte_row list" where
  "user_footprint_cte g user_id =
     (let base = remdups
            (concat (map (\<lambda>ce. map (\<lambda>i. (ce_target_id ce, memory))
                                  (filter (\<lambda>i. ce_source_id ce = in_id i \<and> in_user_id i = user_id)
                                     (interaction_nodes g)))
                         (creation_edges g)))
      in cte_loop (derivation_edges g) base base)"

record user_footprint =
  uf_user_id :: string
  memory_node_ids :: "uuid list"
  summary_node_ids :: "uuid list"
  embedding_node_ids :: "uuid list"
  interaction_node_ids :: "uuid list"

definition compute_user_footprint :: "graph \<Rightarrow> string \<Rightarrow> user_footprint" where
  "compute_user_footprint g user_id =
     (let rows = user_footprint_cte g user_id
      in \<lparr>uf_user_id = user_id,
          memory_node_ids = map fst (filter (\<lambda>row. snd row = memory) rows),
          summary_node_ids = map fst (filter (\<lambda>row. snd row = summary) rows),
          embedding_node_ids = map fst (filter (\<lambda>row. snd row = embedding) rows),
          interaction_node_ids =
            map in_id (filter (\<lambda>i. in_user_id i = user_id) (interaction_nodes g))\<rparr>)"

definition compute_influence_footprint :: "graph \<Rightarrow> string \<Rightarrow> uuid list" where
  "compute_influence_footprint g user_id =
     remdups
       (concat (map (\<lambda>ae. map (\<lambda>uf. ae_target_id ae)
                             (filter (\<lambda>uf. ae_source_id ae = fst uf \<and> snd uf = memory \<and>
                                           ae_is_current ae \<and> ae_score ae > 0)
                                (user_footprint_cte g user_id)))
                    (attribution_edges g)))"

text \<open>
  The invariants of the attribution edges: the rows of a (source, target) pair, those of
  them that are current, that no pair has two current rows, and that the versions of
  a pair are 1, 2, ..., n in the order of insertion with only the last row current.
  Then the data footprint F(u) as a reachability relation: the least set of rows
  that holds the memories created from the interactions of u and is closed under the
  derivation edges.
\<close>

definition pair_rows :: "graph \<Rightarrow> uuid \<Rightarrow> uuid \<Rightarrow> attribution_edge list" where
  "pair_rows g s t =
     filter (\<lambda>edge. ae_source_id edge = s \<and> ae_target_id edge = t) (attribution_edges g)"

definition current_rows :: "graph \<Rightarrow> uuid \<Rightarrow> uuid \<Rightarrow> attribution_edge list" where
  "current_rows g s t = filter (is_current_for s t) (attribution_edges g)"

definition at_most_one_current :: "graph \<Rightarrow> bool" where
  "at_most_one_current g =
     list_all (\<lambda>edge. length (current_rows g (ae_source_id edge) (ae_target_id edge)) \<le> 1)
       (attribution_edges g)"

definition versions_dense :: "graph \<Rightarrow> uuid \<Rightarrow> uuid \<Rightarrow> bool" where
  "versions_dense g s t =
     (let rows = pair_rows g s t
      in map ae_version rows = map int [1..<Suc (length rows)] \<and>
         (if rows = [] then True else filter ae_is_current rows = [last rows]))"

inductive in_footprint :: "graph \<Rightarrow> string \<Rightarrow> cte_row \<Rightarrow> bool" for g u where
  base: "ce \<in> set (creation_edges g) \<Longrightarrow> i \<in> set (interaction_nodes g) \<Longrightarrow>
         ce_source_id ce = in_id i \<Longrightarrow> in_user_id i = u \<Longrightarrow>
         in_footprint g u (ce_target_id ce, memory)"
| step: "in_footprint g u uf \<Longrightarrow> de \<in> set (derivation_edges g) \<Longrightarrow>
         de_source_id de = fst uf \<Longrightarrow>
         in_footprint g u (de_target_id de, de_target_type de)"

section \<open>Scenarios\<close>

text \<open>
  A store of three memories, the second pointing the same way as the first, and the
  requests of scenarios S3 and S4 on it.
\<close>

definition env0 :: env where
  "env0 = \<lparr>env_embed = map (\<lambda>t. [1, 0]), env_now = 100,
            env_uuid4 = (\<lambda>n. CHR ''a'' # replicate n CHR ''x''), env_elapsed_ms = 2\<rparr>"

definition env1 :: env where
  "env1 = \<lparr>env_embed = map (\<lambda>t. [1, 0]), env_now = 200,
            env_uuid4 = (\<lambda>n. CHR ''b'' # replicate n CHR ''x''), env_elapsed_ms = 3\<rparr>"

definition mem :: "vec \<Rightarrow> memory_row" where
  "mem v = \<lparr>mem_content = ''text'', mem_embedding = Some v, mem_retrieval_count = 0,
            mem_last_accessed = None, mem_deleted_at = None\<rparr>"

definition store0 :: "nat store" where
  "store0 = \<lparr>memories = [1 \<mapsto> mem [1, 0], 2 \<mapsto> mem [1, 0], 3 \<mapsto> mem [0, 1]],
              transactions = Map.empty, attribution_scores = [],
              memory_profiles = [1 \<mapsto> \<lparr>mean_attribution = 1 / 4, m2 = 0, retrieval_count = 1,
                  total_attribution = 1 / 4, trend = ''stable'', updated_at = 50\<rparr>],
              agent_cost_configs = Map.empty\<rparr>"

definition initiate_body :: "nat transaction_initiate" where
  "initiate_body = \<lparr>ti_query_text = ''what is x'', ti_retrieved_memory_ids = [1, 2, 3],
     ti_agent_id = ''default'', ti_query_embedding = Some [1, 0], ti_model = ''unknown''\<rparr>"

definition complete_body :: transaction_complete where
  "complete_body = \<lparr>tf_response_text = ''x is y'', tf_response_embedding = Some [1, 0],
     tf_input_tokens = None, tf_output_tokens = None\<rparr>"

definition create_body :: "nat transaction_create" where
  "create_body = \<lparr>tc_query_text = ''what is x'', tc_response_text = ''x is y'',
     tc_retrieved_memory_ids = [1, 2, 3], tc_agent_id = ''default'',
     tc_query_embedding = Some [1, 0], tc_response_embedding = Some [1, 0],
     tc_input_tokens = None, tc_output_tokens = None, tc_model = ''unknown''\<rparr>"

definition store_pending :: "nat store" where
  "store_pending = snd (initiate_transaction env0 initiate_body store0)"

definition store_deleted :: "nat store" where
  "store_deleted = soft_delete_all env0 [2] store_pending"

definition store_completed :: "nat store" where
  "store_completed = snd (create_transaction env1 create_body store0)"

text \<open>
  Scenarios on the graph.  The k-th request draws the UUIDs 16 k, 16 k + 1, ... and
  reads the clock at k.  Scenario S5: a transaction attributed to memory 10 with score
  0.7 is recorded (the interaction gets the id 16), then corrected twice.
\<close>

definition penv_at :: "nat \<Rightarrow> penv" where
  "penv_at k = \<lparr>p_now = k, p_uuid = (\<lambda>n. word_of_nat (16 * k + n)),
                p_hash = (\<lambda>s. int (length s))\<rparr>"

definition empty_graph :: graph where
  "empty_graph = \<lparr>interaction_nodes = [], memory_nodes = [], embedding_nodes = [],
     creation_edges = [], attribution_edges = [], derivation_edges = []\<rparr>"

definition s5_recorded :: graph where
  "s5_recorded = snd (record_transaction (penv_at 1) ''user-1'' ''q'' ''r'' ''a'' 0
     [10] [7 / 10] eas None None empty_graph)"

definition s5_updated :: graph where
  "s5_updated = snd (projr (update_attribution (penv_at 2) 10 16 (13 / 20) calibrated None
     s5_recorded))"

definition s5_updated_twice :: graph where
  "s5_updated_twice = snd (projr (update_attribution (penv_at 3) 10 16 (29 / 50) calibrated None
     s5_updated))"


text \<open>
  Scenarios S6 and S7: Alice records an interaction (id 16) and a memory is created
  from it (memory 32, embedding 34); Bob records an interaction (id 48) that retrieved
  the memory, with score 0.92 in S6 and 0 in S7.
\<close>

definition s6_alice :: graph where
  "s6_alice = snd (record_transaction (penv_at 1) ''alice'' ''q'' ''r'' ''a'' 0 [] [] eas
     None None empty_graph)"

definition s6_memory :: graph where
  "s6_memory = snd (record_memory_creation (penv_at 2) 16 ''content'' ''alice'' raw ''v1''
     ''all-MiniLM-L6-v2'' 384 0 normal None s6_alice)"

definition s6_graph :: graph where
  "s6_graph = snd (record_transaction (penv_at 3) ''bob'' ''q2'' ''r2'' ''a'' 0 [32] [23 / 25] eas
     None None s6_memory)"

definition s7_graph :: graph where
  "s7_graph = snd (record_transaction (penv_at 3) ''bob'' ''q2'' ''r2'' ''a'' 0 [32] [0] eas
     None None s6_memory)"

section \<open>Properties of the EAS kernel\<close>



lemma length_cosine_similarities:
  "length v = d \<Longrightarrow> \<exists>s. cosine_similarities d M v = Inr s \<and> length s = length M"
  by (simp add: cosine_similarities_def matvec_def Let_def)

lemma cosine_similarities_zero:
  "l2norm v = 0 \<Longrightarrow> cosine_similarities d M v = Inr (replicate (length M) 0)"
  by (simp add: cosine_similarities_def)


lemma sum_list_uniform: "0 < k \<Longrightarrow> sum_list (replicate k (1 / real k)) = 1"
  by (simp add: sum_list_replicate)


lemma map2_zero_left:
  "length ys = n \<Longrightarrow> map2 (*) (replicate n (0::real)) ys = replicate n 0"
  by (induction ys arbitrary: n) auto

lemma map2_zero_right:
  "length xs = n \<Longrightarrow> map2 (*) xs (replicate n (0::real)) = replicate n 0"
  by (induction xs arbitrary: n) auto

lemma compute_eas_well_shaped:
  assumes "well_shaped ME d M q r" and "M \<noteq> []"
  obtains sr sq where "cosine_similarities d M r = Inr sr" "cosine_similarities d M q = Inr sq"
    "length sr = length M" "length sq = length M"
    "compute_eas ME q r ms =
       (let raw = map2 (*) (map (\<lambda>x. max x 0) sr) (map (\<lambda>x. max x 0) sq);
            total = sum_list raw
        in Inr \<lparr>scores = (if total > 0 then map (\<lambda>x. x / total) raw
                             else replicate (length M) (1 / real (length M))),
                raw_scores = raw, compute_ms = ms\<rparr>)"
proof -
  from assms(1) have lq: "length q = d" and lr: "length r = d"
    by (simp_all add: well_shaped_def)
  obtain sr where sr: "cosine_similarities d M r = Inr sr" "length sr = length M"
    using length_cosine_similarities[OF lr] by blast
  obtain sq where sq: "cosine_similarities d M q = Inr sq" "length sq = length M"
    using length_cosine_similarities[OF lq] by blast
  from assms(1) obtain M0 where M0: "asarray ME = Inr M0" "reshape_rows M0 = (d, M)"
    by (cases "asarray ME") (auto simp: well_shaped_def)
  show thesis
    by (rule that[OF sr(1) sq(1) sr(2) sq(2)])
       (use M0 sr sq assms(2) in \<open>simp add: compute_eas_def Let_def\<close>)
qed



text \<open>
  Claim C5 says that a query or response embedding of norm zero makes \<open>compute_eas\<close>
  return the zero vector as scores.  It is \<open>cosine_similarities\<close> that returns
  zeros then; the raw products are all zero, their sum is not positive, and the
  uniform fallback gives every memory the score 1 / k.  With one memory and a zero
  query the score is 1, not 0.
\<close>

theorem zero_norm_counterexample:
  "l2norm [0, 0, 0] = 0 \<and>
   map_sum id scores (compute_eas (PyList [[1, 0, 0]]) [0, 0, 0] [1, 0, 0] 0) = Inr [1] \<and>
   map_sum id scores (compute_eas (PyList [[1, 0, 0]]) [0, 0, 0] [1, 0, 0] 0) \<noteq> Inr (replicate 1 0)"
  by (simp add: compute_eas_def cosine_similarities_def l2norm_def matvec_def dot_def)

text \<open>
  Claim C5 as amended.  For a k x d matrix with k \<ge> 1, if the query or the response
  embedding has norm zero then the raw scores are the zero vector of length k and the
  scores are uniform, 1 / k each.
\<close>

theorem compute_eas_zero_norm:
  assumes "well_shaped ME d M q r" and "M \<noteq> []" and "l2norm q = 0 \<or> l2norm r = 0"
  shows "compute_eas ME q r ms =
           Inr \<lparr>scores = replicate (length M) (1 / real (length M)),
                raw_scores = replicate (length M) 0, compute_ms = ms\<rparr>"
proof -
  obtain sr sq where cs: "cosine_similarities d M r = Inr sr" "cosine_similarities d M q = Inr sq"
    and len: "length sr = length M" "length sq = length M"
    and eq: "compute_eas ME q r ms =
       (let raw = map2 (*) (map (\<lambda>x. max x 0) sr) (map (\<lambda>x. max x 0) sq);
            total = sum_list raw
        in Inr \<lparr>scores = (if total > 0 then map (\<lambda>x. x / total) raw
                             else replicate (length M) (1 / real (length M))),
                raw_scores = raw, compute_ms = ms\<rparr>)"
    using compute_eas_well_shaped[OF assms(1,2)] by metis
  have "sr = replicate (length M) 0 \<or> sq = replicate (length M) 0"
    using assms(3) cs by (auto simp: cosine_similarities_zero)
  then have raw: "map2 (*) (map (\<lambda>x. max x 0) sr) (map (\<lambda>x. max x 0) sq) = replicate (length M) 0"
    using len by (auto simp: map2_zero_left map2_zero_right)
  show ?thesis
    unfolding eq raw by (simp add: Let_def sum_list_replicate)
qed

theorem compute_eas_zero_norm_witness:
  "well_shaped (PyList [[1, 0, 0]]) 3 [[1, 0, 0]] [0, 0, 0] [1, 0, 0] \<and>
   l2norm [0, 0, 0] = 0 \<and>
   compute_eas (PyList [[1, 0, 0]]) [0, 0, 0] [1, 0, 0] 5 =
     Inr \<lparr>scores = [1], raw_scores = [0], compute_ms = 5\<rparr>"
proof -
  have ws: "well_shaped (PyList [[1, 0, 0]]) 3 [[1, 0, 0]] [0, 0, 0] [1, 0, 0]"
    by (simp add: well_shaped_def)
  have ne: "[[1, 0, 0 :: real]] \<noteq> []" by simp
  have z: "l2norm [0, 0, 0] = 0" by (simp add: l2norm_def)
  from z have z': "l2norm [0, 0, 0] = 0 \<or> l2norm [1, 0, 0] = 0" by simp
  show ?thesis
    using compute_eas_zero_norm[OF ws ne z', of 5] ws z by simp
qed

text \<open>
  Claim C9 says that an empty collection of memory embeddings gives empty score
  arrays and no failure.  The empty list \<open>[]\<close> becomes an array of shape (0,), the
  \<open>ndim == 1\<close> branch reshapes it to one row of no column, so k is 1 and the guard
  \<open>k == 0\<close> is passed over: with a query of three entries the matrix product
  raises ValueError.
\<close>

theorem empty_list_raises:
  "compute_eas (PyList []) [1, 0, 0] [0, 1, 0] 0 = Inl ValueError"
  by (simp add: compute_eas_def cosine_similarities_def l2norm_def matvec_def dot_def)

text \<open>A two-dimensional array without rows does give the empty result.\<close>

lemma compute_eas_no_rows:
  "compute_eas (Array (Arr2 d [])) q r ms = Inr \<lparr>scores = [], raw_scores = [], compute_ms = 0\<rparr>"
  by (simp add: compute_eas_def)

text \<open>With embeddings of norm zero the empty list gives one score, 1.\<close>

lemma empty_list_zero_query:
  "compute_eas (PyList []) [] [] 0 = Inr \<lparr>scores = [1], raw_scores = [0], compute_ms = 0\<rparr>"
  by (simp add: compute_eas_def cosine_similarities_def l2norm_def matvec_def dot_def)


section \<open>Properties of the attribution pipeline\<close>

text \<open>
  Claim C8.  \<open>complete\<close> fails with 404 when no transaction has the id, and with
  409 when the transaction is not pending; in both cases the store it leaves is the
  store it found: no statement that writes was executed.
\<close>

theorem complete_transaction_rejects:
  "(transactions s txn_id = None \<longrightarrow>
      complete_transaction e txn_id body s =
        (Inl (Py (HTTPException 404 ''Transaction not found'')), s)) \<and>
   (\<forall>row. transactions s txn_id = Some row \<and> txn_status row \<noteq> pending \<longrightarrow>
      complete_transaction e txn_id body s =
        (Inl (Py (HTTPException 409 ''Transaction is not in pending state'')), s))"
  by (simp add: complete_transaction_def)



lemma welford_upsert_total:
  "profiles mem_id = Some p \<Longrightarrow> 0 \<le> retrieval_count p \<Longrightarrow>
   \<exists>profiles'. welford_upsert mem_id x now profiles = Inr profiles'"
  by (simp add: welford_upsert_def)










lemmas eas_eval = compute_eas_def cosine_similarities_def l2norm_def matvec_def dot_def
lemmas run_eval = run_eas_and_store_def select_memories_def
  make_scores_def welford_upsert_def bump_memory_def enumerate_eq_zip























lemmas scenario_defs = env0_def env1_def store0_def mem_def initiate_body_def complete_body_def
  create_body_def store_pending_def store_deleted_def soft_delete_all_def delete_memory_def
  initiate_transaction_def

lemmas endpoint_eval = complete_transaction_def create_transaction_def build_response_def
  outcome_view_def score_view_def int_or.simps whitespace_tokens_def get_cost_config_def
  compute_transaction_cost_def row_to_txn_def



theorem complete_transaction_rejects_witness:
  "transactions store0 ''zz'' = None \<and>
   complete_transaction env0 ''zz'' complete_body store0 =
     (Inl (Py (HTTPException 404 ''Transaction not found'')), store0) \<and>
   map_option txn_status (transactions store_completed ''b'') = Some completed \<and>
   complete_transaction env0 ''b'' complete_body store_completed =
     (Inl (Py (HTTPException 409 ''Transaction is not in pending state'')), store_completed)"
proof -
  have none: "transactions store0 ''zz'' = None"
    by (simp add: store0_def)
  have "transactions store_completed ''b'' \<noteq> None"
    unfolding store_completed_def
    by (simp add: scenario_defs endpoint_eval run_eval eas_eval Let_def)
  then obtain row where row: "transactions store_completed ''b'' = Some row"
    by blast
  have st: "map_option txn_status (transactions store_completed ''b'') = Some completed"
    unfolding store_completed_def
    by (simp add: scenario_defs endpoint_eval run_eval eas_eval Let_def)
  with row have np: "txn_status row \<noteq> pending" by simp
  from complete_transaction_rejects[of store0 "''zz''" env0 complete_body] none
  have a: "complete_transaction env0 ''zz'' complete_body store0 =
     (Inl (Py (HTTPException 404 ''Transaction not found'')), store0)"
    by blast
  from complete_transaction_rejects[of store_completed "''b''" env0 complete_body] row np
  have b: "complete_transaction env0 ''b'' complete_body store_completed =
     (Inl (Py (HTTPException 409 ''Transaction is not in pending state'')), store_completed)"
    by blast
  from none a st b show ?thesis by blast
qed



section \<open>Properties of the provenance recorders\<close>

text \<open>
  Claim C10.  \<open>record_transaction\<close> with lists of memory ids and scores of any
  lengths returns (the model has no error to raise); it appends the interaction and one
  attribution edge for each positional pair up to the shorter length, version 1 and
  current, and nothing for the surplus; with no memory id it appends the interaction
  only.
\<close>

theorem record_transaction_zip:
  assumes "record_transaction e user_id query response agent_id cost memory_ids scs sty ts md g
             = (interaction, g')"
  shows "\<exists>new. g' = g\<lparr>interaction_nodes := interaction_nodes g @ [interaction],
                       attribution_edges := attribution_edges g @ new\<rparr> \<and>
           length new = min (length memory_ids) (length scs) \<and>
           map (\<lambda>edge. (ae_source_id edge, ae_score edge)) new =
             zip (take (length new) memory_ids) (take (length new) scs) \<and>
           list_all (\<lambda>edge. ae_target_id edge = in_id interaction \<and> ae_version edge = 1 \<and>
                             ae_is_current edge \<and> ae_score_type edge = sty) new \<and>
           (if memory_ids = [] then new = [] else True)"
proof -
  define now where "now = (case ts of Some t \<Rightarrow> t | None \<Rightarrow> p_now e)"
  define new where "new = map (\<lambda>(i, (memory_id, score)).
                    \<lparr>ae_id = p_uuid e (Suc i), ae_created_at = now, ae_source_id = memory_id,
                     ae_target_id = in_id interaction, ae_score = score,
                     ae_score_type = sty, ae_version = 1, ae_is_current = True,
                     ae_metadata = []\<rparr>)
                  (enumerate 0 (zip memory_ids scs))"
  from assms have g': "g' = g\<lparr>interaction_nodes := interaction_nodes g @ [interaction],
                       attribution_edges := attribution_edges g @ new\<rparr>"
    by (auto simp: record_transaction_def Let_def new_def now_def)
  have len: "length new = min (length memory_ids) (length scs)"
    by (simp add: new_def)
  have "map (\<lambda>edge. (ae_source_id edge, ae_score edge))
          (map (\<lambda>(i, (memory_id, score)).
                    \<lparr>ae_id = p_uuid e (Suc i), ae_created_at = now, ae_source_id = memory_id,
                     ae_target_id = in_id interaction, ae_score = score,
                     ae_score_type = sty, ae_version = 1, ae_is_current = True,
                     ae_metadata = []\<rparr>) (enumerate n zs)) = zs" for n zs
    by (induction zs arbitrary: n) auto
  then have "map (\<lambda>edge. (ae_source_id edge, ae_score edge)) new = zip memory_ids scs"
    unfolding new_def .
  also have "\<dots> = zip (take (length new) memory_ids) (take (length new) scs)"
    unfolding len by (simp add: zip_eq_conv take_zip[symmetric] del: take_zip)
  finally have pairs: "map (\<lambda>edge. (ae_source_id edge, ae_score edge)) new =
      zip (take (length new) memory_ids) (take (length new) scs)" .
  have all: "list_all (\<lambda>edge. ae_target_id edge = in_id interaction \<and> ae_version edge = 1 \<and>
                             ae_is_current edge \<and> ae_score_type edge = sty) new"
    by (auto simp: new_def list_all_iff)
  have emp: "if memory_ids = [] then new = [] else True"
    by (simp add: new_def)
  from g' len pairs all emp show ?thesis by blast
qed

theorem record_transaction_zip_witness:
  "map (\<lambda>edge. (ae_source_id edge, ae_score edge))
     (attribution_edges (snd (record_transaction (penv_at 1) ''user-1'' ''q'' ''r'' ''a'' 0
        [10, 11, 12] [1 / 2, 3 / 10] eas None None empty_graph))) = [(10, 1 / 2), (11, 3 / 10)] \<and>
   attribution_edges (snd (record_transaction (penv_at 1) ''user-1'' ''q'' ''r'' ''a'' 0
        [] [1 / 2] eas None None empty_graph)) = [] \<and>
   length (interaction_nodes (snd (record_transaction (penv_at 1) ''user-1'' ''q'' ''r'' ''a'' 0
        [] [1 / 2] eas None None empty_graph))) = 1"
proof -
  have a: "record_transaction (penv_at 1) ''user-1'' ''q'' ''r'' ''a'' 0
        [10, 11, 12] [1 / 2, 3 / 10] eas None None empty_graph =
      (fst (record_transaction (penv_at 1) ''user-1'' ''q'' ''r'' ''a'' 0
        [10, 11, 12] [1 / 2, 3 / 10] eas None None empty_graph),
       snd (record_transaction (penv_at 1) ''user-1'' ''q'' ''r'' ''a'' 0
        [10, 11, 12] [1 / 2, 3 / 10] eas None None empty_graph))"
    by simp
  have b: "record_transaction (penv_at 1) ''user-1'' ''q'' ''r'' ''a'' 0
        [] [1 / 2] eas None None empty_graph =
      (fst (record_transaction (penv_at 1) ''user-1'' ''q'' ''r'' ''a'' 0
        [] [1 / 2] eas None None empty_graph),
       snd (record_transaction (penv_at 1) ''user-1'' ''q'' ''r'' ''a'' 0
        [] [1 / 2] eas None None empty_graph))"
    by simp
  from record_transaction_zip[OF a] record_transaction_zip[OF b]
  show ?thesis
    by (auto simp: empty_graph_def)
qed

lemma filter_map_unchanged:
  "(\<And>x. x \<in> set xs \<Longrightarrow> P (f x) = P x \<and> (P x \<longrightarrow> f x = x)) \<Longrightarrow>
   filter P (map f xs) = filter P xs"
  by (induction xs) auto

lemma scalar_one_or_none_le1:
  "length xs \<le> 1 \<Longrightarrow>
   scalar_one_or_none xs = Inr (case xs of [] \<Rightarrow> None | x # _ \<Rightarrow> Some x)"
  by (cases xs rule: scalar_one_or_none.cases) auto

lemma at_most_one_current_iff:
  "at_most_one_current g \<longleftrightarrow> (\<forall>s t. length (current_rows g s t) \<le> 1)"
proof
  assume a: "at_most_one_current g"
  show "\<forall>s t. length (current_rows g s t) \<le> 1"
  proof (intro allI)
    fix s t
    show "length (current_rows g s t) \<le> 1"
    proof (cases "current_rows g s t")
      case Nil
      then show ?thesis by simp
    next
      case (Cons x xs)
      then have "x \<in> set (current_rows g s t)" by simp
      then have x: "x \<in> set (attribution_edges g)" "ae_source_id x = s" "ae_target_id x = t"
        by (auto simp: current_rows_def is_current_for_def)
      with a show ?thesis
        by (auto simp: at_most_one_current_def list_all_iff)
    qed
  qed
next
  assume "\<forall>s t. length (current_rows g s t) \<le> 1"
  then show "at_most_one_current g"
    by (simp add: at_most_one_current_def list_all_iff)
qed

lemma update_attribution_Inr:
  assumes "length (current_rows g s t) \<le> 1"
  obtains new_edge where
    "update_attribution e s t sc sty md g =
       Inr (new_edge, g\<lparr>attribution_edges :=
          map (supersede s t) (attribution_edges g) @ [new_edge]\<rparr>)"
    "ae_source_id new_edge = s" "ae_target_id new_edge = t" "ae_is_current new_edge"
    "ae_score new_edge = sc" "ae_score_type new_edge = sty"
    "ae_version new_edge =
       (case current_rows g s t of [] \<Rightarrow> 1 | c # _ \<Rightarrow> ae_version c + 1)"
proof -
  have l: "length (map ae_version (filter (is_current_for s t) (attribution_edges g))) \<le> 1"
    using assms by (simp add: current_rows_def)
  show thesis
    by (rule that[of "\<lparr>ae_id = p_uuid e 0, ae_created_at = p_now e, ae_source_id = s,
                  ae_target_id = t, ae_score = sc, ae_score_type = sty,
                  ae_version = (case current_rows g s t of [] \<Rightarrow> 1 | c # _ \<Rightarrow> ae_version c + 1),
                  ae_is_current = True,
                  ae_metadata = (case md of Some m \<Rightarrow> m | None \<Rightarrow> [])\<rparr>"])
       (simp_all add: update_attribution_def scalar_one_or_none_le1[OF l] Let_def current_rows_def
          split: list.splits)
qed

lemma supersede_simps:
  "ae_source_id (supersede s t x) = ae_source_id x"
  "ae_target_id (supersede s t x) = ae_target_id x"
  "ae_version (supersede s t x) = ae_version x"
  "\<not> is_current_for s t (supersede s t x)"
  by (simp_all add: supersede_def is_current_for_def)

lemma supersede_other:
  "\<not> (s' = s \<and> t' = t) \<Longrightarrow> is_current_for s' t' (supersede s t x) = is_current_for s' t' x"
  "\<not> (s' = s \<and> t' = t) \<Longrightarrow> is_current_for s' t' x \<Longrightarrow> supersede s t x = x"
   apply (simp_all add: supersede_def is_current_for_def)
   apply blast+
  done

lemma current_rows_after:
  assumes e': "attribution_edges g' = map (supersede s t) (attribution_edges g) @ [new_edge]"
    and n: "ae_source_id new_edge = s" "ae_target_id new_edge = t" "ae_is_current new_edge"
  shows "current_rows g' s' t' =
           (if s' = s \<and> t' = t then [new_edge] else current_rows g s' t')"
proof (cases "s' = s \<and> t' = t")
  case True
  have a: "filter (is_current_for s t) (map (supersede s t) (attribution_edges g)) = []"
    by (simp add: filter_empty_conv supersede_simps)
  have b: "is_current_for s t new_edge"
    by (simp add: is_current_for_def n)
  show ?thesis
    unfolding current_rows_def e' using True a b by simp
next
  case False
  have a: "filter (is_current_for s' t') (map (supersede s t) (attribution_edges g)) =
           filter (is_current_for s' t') (attribution_edges g)"
    by (rule filter_map_unchanged) (use False supersede_other in blast)
  have b: "\<not> is_current_for s' t' new_edge"
    using False by (auto simp add: is_current_for_def n)
  show ?thesis
    unfolding current_rows_def e' using False a b by auto
qed


lemma pair_rows_after:
  assumes "attribution_edges g' =
     map (supersede s t) (attribution_edges g) @ [new_edge]"
    and "ae_source_id new_edge = s" "ae_target_id new_edge = t"
  shows "pair_rows g' s t = map (\<lambda>edge. edge\<lparr>ae_is_current := False\<rparr>) (pair_rows g s t) @ [new_edge]"
proof -
  have "filter (\<lambda>edge. ae_source_id edge = s \<and> ae_target_id edge = t)
          (map (supersede s t) xs)
        = map (\<lambda>edge. edge\<lparr>ae_is_current := False\<rparr>)
            (filter (\<lambda>edge. ae_source_id edge = s \<and> ae_target_id edge = t) xs)" for xs
    by (induction xs) (simp_all add: supersede_def is_current_for_def)
  with assms show ?thesis
    by (simp add: pair_rows_def)
qed

lemma current_rows_pair_rows:
  "current_rows g s t = filter ae_is_current (pair_rows g s t)"
  by (auto simp: current_rows_def pair_rows_def is_current_for_def intro: filter_cong)

text \<open>
  Claim C3.  On a graph where no (source, target) pair has two current rows,
  \<open>update_attribution\<close> returns, appends one row, and again no pair has two current
  rows: the pair updated has exactly one, the new row, whose version is that of the
  row that was current plus one (1 when there was none).  When the versions of the pair
  were 1, ..., n with the last row current, they are 1, ..., n + 1 afterwards.
\<close>

theorem update_attribution_versioning:
  assumes "at_most_one_current g"
  shows "\<exists>new_edge g'.
           update_attribution e s t sc sty md g = Inr (new_edge, g') \<and>
           at_most_one_current g' \<and>
           current_rows g' s t = [new_edge] \<and>
           length (attribution_edges g') = Suc (length (attribution_edges g)) \<and>
           ae_score new_edge = sc \<and>
           ae_version new_edge =
             (case current_rows g s t of [] \<Rightarrow> 1 | c # _ \<Rightarrow> ae_version c + 1) \<and>
           (if versions_dense g s t
            then versions_dense g' s t \<and>
                 ae_version new_edge = int (length (pair_rows g s t)) + 1
            else True)"
proof -
  from assms have le: "length (current_rows g s' t') \<le> 1" for s' t'
    by (simp add: at_most_one_current_iff)
  obtain new_edge where u: "update_attribution e s t sc sty md g =
       Inr (new_edge, g\<lparr>attribution_edges :=
          map (supersede s t) (attribution_edges g) @ [new_edge]\<rparr>)"
    and n: "ae_source_id new_edge = s" "ae_target_id new_edge = t" "ae_is_current new_edge"
    and sc: "ae_score new_edge = sc"
    and v: "ae_version new_edge =
       (case current_rows g s t of [] \<Rightarrow> 1 | c # _ \<Rightarrow> ae_version c + 1)"
    using update_attribution_Inr[OF le[of s t], of e sc sty md] by metis
  define g' where "g' = g\<lparr>attribution_edges :=
          map (supersede s t) (attribution_edges g) @ [new_edge]\<rparr>"
  have e': "attribution_edges g' =
     map (supersede s t) (attribution_edges g) @ [new_edge]"
    by (simp add: g'_def)
  note cur = current_rows_after[OF e' n]
  have amo: "at_most_one_current g'"
    unfolding at_most_one_current_iff using le by (simp add: cur)
  have dense: "versions_dense g' s t \<and> ae_version new_edge = int (length (pair_rows g s t)) + 1"
    if d: "versions_dense g s t"
  proof -
    define rows where "rows = pair_rows g s t"
    from d have vs: "map ae_version rows = map int [1..<Suc (length rows)]"
      and cr: "rows \<noteq> [] \<Longrightarrow> filter ae_is_current rows = [last rows]"
      by (auto simp: versions_dense_def rows_def Let_def split: if_splits)
    have ver: "ae_version new_edge = int (length rows) + 1"
    proof (cases "rows = []")
      case True
      then show ?thesis by (simp add: v current_rows_pair_rows rows_def[symmetric])
    next
      case False
      have "ae_version (last rows) = last (map ae_version rows)"
        using False by (simp add: last_map)
      also have "\<dots> = int (length rows)"
        unfolding vs using False by (cases rows rule: rev_cases) simp_all
      finally show ?thesis
        using cr[OF False] by (simp add: v current_rows_pair_rows rows_def[symmetric])
    qed
    have pr: "pair_rows g' s t = map (\<lambda>edge. edge\<lparr>ae_is_current := False\<rparr>) rows @ [new_edge]"
      unfolding rows_def by (rule pair_rows_after[OF e' n(1,2)])
    have "versions_dense g' s t"
      unfolding versions_dense_def pr Let_def
      by (simp add: comp_def vs ver n(3) filter_empty_conv)
    with ver show ?thesis by (simp add: rows_def)
  qed
  show ?thesis
    using u amo cur[of s t] sc v dense
    by (intro exI[of _ new_edge] exI[of _ g']) (auto simp: g'_def)
qed

lemmas graph_eval = record_transaction_def update_attribution_def supersede_def
  is_current_for_def penv_at_def empty_graph_def enumerate_eq_zip Let_def
  current_rows_def pair_rows_def at_most_one_current_def versions_dense_def

lemma s5_recorded_edges:
  "attribution_edges s5_recorded =
     [\<lparr>ae_id = 17, ae_created_at = 1, ae_source_id = 10, ae_target_id = 16, ae_score = 7 / 10,
       ae_score_type = eas, ae_version = 1, ae_is_current = True, ae_metadata = []\<rparr>]"
  by (simp add: s5_recorded_def graph_eval)

lemma s5_updated_edges:
  "attribution_edges s5_updated =
     [\<lparr>ae_id = 17, ae_created_at = 1, ae_source_id = 10, ae_target_id = 16, ae_score = 7 / 10,
       ae_score_type = eas, ae_version = 1, ae_is_current = False, ae_metadata = []\<rparr>,
      \<lparr>ae_id = 32, ae_created_at = 2, ae_source_id = 10, ae_target_id = 16, ae_score = 13 / 20,
       ae_score_type = calibrated, ae_version = 2, ae_is_current = True, ae_metadata = []\<rparr>]"
  by (simp add: s5_updated_def update_attribution_def s5_recorded_edges supersede_def
        is_current_for_def penv_at_def Let_def)

text \<open>Scenario S5: three rows, versions 1, 2, 3, only the third current.\<close>

theorem update_attribution_versioning_witness:
  "at_most_one_current s5_updated \<and> versions_dense s5_updated 10 16 \<and>
   at_most_one_current s5_updated_twice \<and> versions_dense s5_updated_twice 10 16 \<and>
   map (\<lambda>edge. (ae_version edge, ae_is_current edge, ae_score edge))
     (attribution_edges s5_updated_twice) =
     [(1, False, 7 / 10), (2, False, 13 / 20), (3, True, 29 / 50)]"
proof -
  have amo: "at_most_one_current s5_updated"
    by (simp add: at_most_one_current_def current_rows_def s5_updated_edges is_current_for_def)
  have dense: "versions_dense s5_updated 10 16"
    by (simp add: versions_dense_def pair_rows_def s5_updated_edges Let_def)
  from update_attribution_versioning[OF amo, of "penv_at 3" 10 16 "29 / 50" calibrated None]
  obtain new_edge g' where
    u: "update_attribution (penv_at 3) 10 16 (29 / 50) calibrated None s5_updated = Inr (new_edge, g')"
    and r: "at_most_one_current g'" "versions_dense g' 10 16"
    using dense by auto
  from u have g': "s5_updated_twice = g'"
    by (simp add: s5_updated_twice_def)
  have edges: "map (\<lambda>edge. (ae_version edge, ae_is_current edge, ae_score edge))
     (attribution_edges s5_updated_twice) =
     [(1, False, 7 / 10), (2, False, 13 / 20), (3, True, 29 / 50)]"
    by (simp add: s5_updated_twice_def update_attribution_def s5_updated_edges supersede_def
        is_current_for_def penv_at_def Let_def)
  from amo dense r edges show ?thesis
    unfolding g' by simp
qed

section \<open>Properties of the footprint engine\<close>

lemma set_cte_step:
  "y \<in> set (cte_step des working) \<longleftrightarrow>
     (\<exists>de uf. de \<in> set des \<and> uf \<in> set working \<and> de_source_id de = fst uf \<and>
        y = (de_target_id de, de_target_type de))"
  unfolding cte_step_def by (simp add: image_iff) blast

lemma cte_loop_unfold:
  "cte_loop des found working =
     (if working = [] then found
      else cte_loop des
             (found @ remdups (filter (\<lambda>r. r \<notin> set found) (cte_step des working)))
             (remdups (filter (\<lambda>r. r \<notin> set found) (cte_step des working))))"
  by (subst cte_loop.simps) (simp add: Let_def)

lemma cte_loop_sound:
  assumes "\<And>r. r \<in> set found \<Longrightarrow> Q r"
    and "set working \<subseteq> set found"
    and "\<And>x de. Q x \<Longrightarrow> de \<in> set des \<Longrightarrow> de_source_id de = fst x \<Longrightarrow>
           Q (de_target_id de, de_target_type de)"
  shows "r \<in> set (cte_loop des found working) \<Longrightarrow> Q r"
  using assms
proof (induction des found working rule: cte_loop.induct)
  case (1 des found working)
  show ?case
  proof (cases "working = []")
    case True
    with "1.prems" show ?thesis
      by (subst (asm) cte_loop_unfold) simp
  next
    case False
    define new where "new = remdups (filter (\<lambda>r. r \<notin> set found) (cte_step des working))"
    have r: "r \<in> set (cte_loop des (found @ new) new)"
      using "1.prems"(1) False unfolding new_def
      by (subst (asm) cte_loop_unfold) simp
    have q: "Q y" if "y \<in> set (found @ new)" for y
    proof (cases "y \<in> set found")
      case True
      then show ?thesis by (rule "1.prems"(2))
    next
      case False
      with that have "y \<in> set (cte_step des working)"
        by (auto simp: new_def)
      then obtain de uf where d: "de \<in> set des" "uf \<in> set working" "de_source_id de = fst uf"
        "y = (de_target_id de, de_target_type de)"
        unfolding set_cte_step by blast
      have "uf \<in> set found"
        using d(2) "1.prems"(3) by (rule subsetD[rotated])
      then have "Q uf"
        by (rule "1.prems"(2))
      then show ?thesis
        unfolding d(4) using d(1,3) by (rule "1.prems"(4))
    qed
    show ?thesis
    proof (rule "1.IH"[OF False new_def r])
      show "Q y" if "y \<in> set (found @ new)" for y
        using that by (rule q)
      show "set new \<subseteq> set (found @ new)" by simp
      show "Q (de_target_id de, de_target_type de)"
        if "Q x" "de \<in> set des" "de_source_id de = fst x" for x de
        using that by (rule "1.prems"(4))
    qed
  qed
qed

lemma cte_loop_closed:
  assumes "set working \<subseteq> set found"
    and "\<And>x de. x \<in> set found \<Longrightarrow> x \<notin> set working \<Longrightarrow> de \<in> set des \<Longrightarrow>
           de_source_id de = fst x \<Longrightarrow> (de_target_id de, de_target_type de) \<in> set found"
  shows "set found \<subseteq> set (cte_loop des found working) \<and>
         (\<forall>x de. x \<in> set (cte_loop des found working) \<longrightarrow> de \<in> set des \<longrightarrow>
            de_source_id de = fst x \<longrightarrow>
            (de_target_id de, de_target_type de) \<in> set (cte_loop des found working))"
  using assms
proof (induction des found working rule: cte_loop.induct)
  case (1 des found working)
  show ?case
  proof (cases "working = []")
    case True
    have "cte_loop des found working = found"
      using True by (subst cte_loop_unfold) simp
    with "1.prems"(2) True show ?thesis by auto
  next
    case False
    define new where "new = remdups (filter (\<lambda>r. r \<notin> set found) (cte_step des working))"
    have eq: "cte_loop des found working = cte_loop des (found @ new) new"
      using False unfolding new_def by (subst cte_loop_unfold) simp
    have sub: "set new \<subseteq> set (found @ new)" by simp
    have cl: "(de_target_id de, de_target_type de) \<in> set (found @ new)"
      if "x \<in> set (found @ new)" "x \<notin> set new" "de \<in> set des" "de_source_id de = fst x"
      for x de
    proof -
      from that(1,2) have xf: "x \<in> set found" by auto
      show ?thesis
      proof (cases "x \<in> set working")
        case True
        with that(3,4) have "(de_target_id de, de_target_type de) \<in> set (cte_step des working)"
          unfolding set_cte_step by blast
        then show ?thesis by (auto simp: new_def)
      next
        case False
        from "1.prems"(2)[OF xf False that(3,4)] show ?thesis by simp
      qed
    qed
    from "1.IH"[OF False new_def sub cl]
    show ?thesis unfolding eq by auto
  qed
qed

lemma cte_loop_distinct:
  "distinct found \<Longrightarrow> distinct (cte_loop des found working)"
proof (induction des found working rule: cte_loop.induct)
  case (1 des found working)
  show ?case
  proof (cases "working = []")
    case True
    with "1.prems" show ?thesis by (subst cte_loop_unfold) simp
  next
    case False
    define new where "new = remdups (filter (\<lambda>r. r \<notin> set found) (cte_step des working))"
    have eq: "cte_loop des found working = cte_loop des (found @ new) new"
      using False unfolding new_def by (subst cte_loop_unfold) simp
    have "distinct (found @ new)"
      using "1.prems" by (auto simp: new_def)
    from "1.IH"[OF False new_def this] show ?thesis unfolding eq .
  qed
qed

lemma set_footprint_base:
  "set (remdups
          (concat (map (\<lambda>ce. map (\<lambda>i. (ce_target_id ce, memory))
                                (filter (\<lambda>i. ce_source_id ce = in_id i \<and> in_user_id i = u)
                                   (interaction_nodes g)))
                       (creation_edges g)))) =
     {(ce_target_id ce, memory) | ce i. ce \<in> set (creation_edges g) \<and>
        i \<in> set (interaction_nodes g) \<and> ce_source_id ce = in_id i \<and> in_user_id i = u}"
  by auto

lemma user_footprint_cte_reach:
  "set (user_footprint_cte g u) = {r. in_footprint g u r}"
proof -
  define base where "base = remdups
          (concat (map (\<lambda>ce. map (\<lambda>i. (ce_target_id ce, memory))
                                (filter (\<lambda>i. ce_source_id ce = in_id i \<and> in_user_id i = u)
                                   (interaction_nodes g)))
                       (creation_edges g)))"
  have cte: "user_footprint_cte g u = cte_loop (derivation_edges g) base base"
    by (simp add: user_footprint_cte_def base_def Let_def)
  have sb: "set base = {(ce_target_id ce, memory) | ce i. ce \<in> set (creation_edges g) \<and>
        i \<in> set (interaction_nodes g) \<and> ce_source_id ce = in_id i \<and> in_user_id i = u}"
    unfolding base_def by (rule set_footprint_base)
  have sound: "in_footprint g u r" if "r \<in> set (user_footprint_cte g u)" for r
  proof (rule cte_loop_sound[where Q = "in_footprint g u" and found = base and working = base
        and des = "derivation_edges g"])
    show "r \<in> set (cte_loop (derivation_edges g) base base)"
      using that by (simp add: cte)
  next
    fix x assume "x \<in> set base"
    then show "in_footprint g u x"
      by (auto simp: sb intro: in_footprint.base)
  next
    show "set base \<subseteq> set base" by simp
  next
    fix x de
    assume "in_footprint g u x" "de \<in> set (derivation_edges g)" "de_source_id de = fst x"
    then show "in_footprint g u (de_target_id de, de_target_type de)"
      by (rule in_footprint.step)
  qed
  have closed: "set base \<subseteq> set (user_footprint_cte g u) \<and>
         (\<forall>x de. x \<in> set (user_footprint_cte g u) \<longrightarrow> de \<in> set (derivation_edges g) \<longrightarrow>
            de_source_id de = fst x \<longrightarrow>
            (de_target_id de, de_target_type de) \<in> set (user_footprint_cte g u))"
    unfolding cte by (rule cte_loop_closed) auto
  have complete: "r \<in> set (user_footprint_cte g u)" if "in_footprint g u r" for r
    using that
  proof (induction rule: in_footprint.induct)
    case (base ce i)
    then have "(ce_target_id ce, memory) \<in> set base"
      unfolding sb by blast
    with closed show ?case by blast
  next
    case (step uf de)
    with closed show ?case by blast
  qed
  from sound complete show ?thesis by blast
qed

lemma user_footprint_cte_distinct: "distinct (user_footprint_cte g u)"
  by (simp add: user_footprint_cte_def Let_def cte_loop_distinct)

lemma set_bucket:
  "set (map fst (filter (\<lambda>row. snd row = c) rows)) = {n. (n, c) \<in> set rows}"
  by (induction rows) auto

lemma in_concat_map:
  "x \<in> set (concat (map F xs)) \<longleftrightarrow> (\<exists>a\<in>set xs. x \<in> set (F a))"
  by auto

lemma influence_member:
  "x \<in> set (compute_influence_footprint g u) \<longleftrightarrow>
     (\<exists>ae. ae \<in> set (attribution_edges g) \<and>
        (ae_source_id ae, memory) \<in> set (user_footprint_cte g u) \<and>
        ae_is_current ae \<and> 0 < ae_score ae \<and> x = ae_target_id ae)"
proof
  assume "x \<in> set (compute_influence_footprint g u)"
  then obtain ae uf where "ae \<in> set (attribution_edges g)" "uf \<in> set (user_footprint_cte g u)"
    "ae_source_id ae = fst uf" "snd uf = memory" "ae_is_current ae" "0 < ae_score ae"
    "x = ae_target_id ae"
    unfolding compute_influence_footprint_def set_remdups in_concat_map by auto
  moreover from this have "(ae_source_id ae, memory) \<in> set (user_footprint_cte g u)"
    by (metis prod.collapse)
  ultimately show "\<exists>ae. ae \<in> set (attribution_edges g) \<and>
        (ae_source_id ae, memory) \<in> set (user_footprint_cte g u) \<and>
        ae_is_current ae \<and> 0 < ae_score ae \<and> x = ae_target_id ae"
    by blast
next
  assume "\<exists>ae. ae \<in> set (attribution_edges g) \<and>
        (ae_source_id ae, memory) \<in> set (user_footprint_cte g u) \<and>
        ae_is_current ae \<and> 0 < ae_score ae \<and> x = ae_target_id ae"
  then obtain ae where ae: "ae \<in> set (attribution_edges g)"
    "(ae_source_id ae, memory) \<in> set (user_footprint_cte g u)"
    "ae_is_current ae" "0 < ae_score ae" "x = ae_target_id ae"
    by blast
  have "x \<in> set (map (\<lambda>uf. ae_target_id ae)
           (filter (\<lambda>uf. ae_source_id ae = fst uf \<and> snd uf = memory \<and>
                         ae_is_current ae \<and> ae_score ae > 0)
              (user_footprint_cte g u)))"
    using ae by (simp add: image_iff)
  then have "\<exists>a\<in>set (attribution_edges g).
      x \<in> set (map (\<lambda>uf. ae_target_id a)
           (filter (\<lambda>uf. ae_source_id a = fst uf \<and> snd uf = memory \<and>
                         ae_is_current a \<and> ae_score a > 0)
              (user_footprint_cte g u)))"
    using ae(1) by (rule_tac bexI)
  then show "x \<in> set (compute_influence_footprint g u)"
    unfolding compute_influence_footprint_def set_remdups in_concat_map .
qed

text \<open>
  Claim C7.  \<open>compute_influence_footprint\<close> returns, without repetition, exactly the
  targets of the attribution edges that are current, have a positive score and whose
  source is one of the memory nodes of F(u), where the memory nodes of F(u) are those
  reachable from the interactions of u; so an interaction all of whose attribution
  edges from memories of F(u) have score 0 is not returned.
\<close>

theorem influence_footprint_exact:
  "set (compute_influence_footprint g u) =
     {ae_target_id ae | ae. ae \<in> set (attribution_edges g) \<and>
        ae_source_id ae \<in> set (memory_node_ids (compute_user_footprint g u)) \<and>
        ae_is_current ae \<and> 0 < ae_score ae} \<and>
   distinct (compute_influence_footprint g u) \<and>
   set (memory_node_ids (compute_user_footprint g u)) = {n. in_footprint g u (n, memory)} \<and>
   (list_all (\<lambda>ae. ae_target_id ae = t \<and>
                    ae_source_id ae \<in> set (memory_node_ids (compute_user_footprint g u))
                    \<longrightarrow> ae_score ae = 0) (attribution_edges g)
      \<longrightarrow> t \<notin> set (compute_influence_footprint g u))"
proof -
  have mem: "set (memory_node_ids (compute_user_footprint g u)) =
      {n. (n, memory) \<in> set (user_footprint_cte g u)}"
    by (simp add: compute_user_footprint_def Let_def set_bucket del: set_map)
  have inf: "set (compute_influence_footprint g u) =
     {ae_target_id ae | ae. ae \<in> set (attribution_edges g) \<and>
        (ae_source_id ae, memory) \<in> set (user_footprint_cte g u) \<and>
        ae_is_current ae \<and> 0 < ae_score ae}"
    by (auto simp: influence_member)
  have a: "set (compute_influence_footprint g u) =
     {ae_target_id ae | ae. ae \<in> set (attribution_edges g) \<and>
        ae_source_id ae \<in> set (memory_node_ids (compute_user_footprint g u)) \<and>
        ae_is_current ae \<and> 0 < ae_score ae}"
    unfolding inf mem by simp
  have b: "distinct (compute_influence_footprint g u)"
    by (simp add: compute_influence_footprint_def)
  have c: "set (memory_node_ids (compute_user_footprint g u)) = {n. in_footprint g u (n, memory)}"
    unfolding mem user_footprint_cte_reach by simp
  have d: "list_all (\<lambda>ae. ae_target_id ae = t \<and>
                    ae_source_id ae \<in> set (memory_node_ids (compute_user_footprint g u))
                    \<longrightarrow> ae_score ae = 0) (attribution_edges g)
      \<longrightarrow> t \<notin> set (compute_influence_footprint g u)"
    unfolding a by (auto simp: list_all_iff)
  from a b c d show ?thesis by blast
qed

lemmas footprint_eval = s6_alice_def s6_memory_def s6_graph_def s7_graph_def
  record_transaction_def record_memory_creation_def penv_at_def empty_graph_def
  enumerate_eq_zip Let_def user_footprint_cte_def cte_loop.simps cte_step_def
  compute_user_footprint_def compute_influence_footprint_def next_slice_id_def NUM_SHARDS_def

lemma s6_cte_alice: "user_footprint_cte s6_graph ''alice'' = [(32, memory), (34, embedding)]"
  by (simp add: footprint_eval)

lemma s6_cte_bob: "user_footprint_cte s6_graph ''bob'' = []"
  by (simp add: footprint_eval)

lemma s7_cte_alice: "user_footprint_cte s7_graph ''alice'' = [(32, memory), (34, embedding)]"
  by (simp add: footprint_eval)

lemma s6_edges:
  "map (\<lambda>ae. (ae_source_id ae, ae_target_id ae, ae_is_current ae, ae_score ae))
     (attribution_edges s6_graph) = [(32, 48, True, 23 / 25)]"
  by (simp add: footprint_eval)

lemma s7_edges:
  "map (\<lambda>ae. (ae_source_id ae, ae_target_id ae, ae_is_current ae, ae_score ae))
     (attribution_edges s7_graph) = [(32, 48, True, 0)]"
  by (simp add: footprint_eval)

text \<open>Scenarios S6 and S7.\<close>

theorem influence_footprint_exact_witness:
  "compute_influence_footprint s6_graph ''alice'' = [48] \<and>
   memory_node_ids (compute_user_footprint s6_graph ''alice'') = [32] \<and>
   memory_node_ids (compute_user_footprint s6_graph ''bob'') = [] \<and>
   interaction_node_ids (compute_user_footprint s6_graph ''alice'') = [16] \<and>
   in_footprint s6_graph ''alice'' (32, memory) \<and>
   \<not> in_footprint s6_graph ''bob'' (32, memory) \<and>
   48 \<notin> set (compute_influence_footprint s7_graph ''alice'')"
proof -
  have ma: "memory_node_ids (compute_user_footprint s6_graph ''alice'') = [32]"
    by (simp add: compute_user_footprint_def s6_cte_alice)
  have mb: "memory_node_ids (compute_user_footprint s6_graph ''bob'') = []"
    by (simp add: compute_user_footprint_def s6_cte_bob)
  have m7: "memory_node_ids (compute_user_footprint s7_graph ''alice'') = [32]"
    by (simp add: compute_user_footprint_def s7_cte_alice)
  have ia: "interaction_node_ids (compute_user_footprint s6_graph ''alice'') = [16]"
    by (simp add: footprint_eval)
  have inf: "compute_influence_footprint s6_graph ''alice'' = [48]"
    by (simp add: footprint_eval)
  have zero: "list_all (\<lambda>ae. ae_target_id ae = 48 \<and>
        ae_source_id ae \<in> set (memory_node_ids (compute_user_footprint s7_graph ''alice''))
        \<longrightarrow> ae_score ae = 0) (attribution_edges s7_graph)"
    using s7_edges by (auto simp: list_all_iff)
  from influence_footprint_exact[of s6_graph "''alice''" 48] ma
  have a: "in_footprint s6_graph ''alice'' (32, memory)" by auto
  from influence_footprint_exact[of s6_graph "''bob''" 48] mb
  have b: "\<not> in_footprint s6_graph ''bob'' (32, memory)" by auto
  from influence_footprint_exact[of s7_graph "''alice''" 48] zero
  have c: "48 \<notin> set (compute_influence_footprint s7_graph ''alice'')" by blast
  from inf ma mb ia a b c show ?thesis by blast
qed


end
